theory Spec2Isabelle
  imports Main
begin

section \<open>Plot data sets (include/SFGraphing/PlotDataSet.h)\<close>

text \<open>
  The header declares the class \<open>csrc::PlotDataSet\<close> and defines two of its members
  inline: the data constructor and the static template \<open>MultiPlotDatSet\<close>. Both are
  embedded here. Conventions of the embedding:

  \<^item> The element types \<open>T_x\<close> and \<open>T_y\<close> of the arguments are type variables; the
    conversion of an element to \<open>float\<close> is the argument \<open>cvx\<close> (\<open>cvy\<close>). Where the
    code copies a \<open>float\<close> to a \<open>float\<close> the conversion is \<open>id\<close>. The type of the
    stored values is \<open>'f\<close>, with \<open>0\<close> for the value of a value-initialised \<open>float\<close>.
  \<^item> \<open>sf::Color\<close> is the type variable \<open>'c\<close>.
  \<^item> Sizes and loop counters are natural numbers. The code counts with \<open>size_t\<close> and,
    in two loops, with \<open>int\<close>; the embedding is the code on vectors of fewer than
    \<open>2^31\<close> elements.
  \<^item> A call ends in one of four ways, the constructors of \<open>outcome\<close>.
\<close>

subsection \<open>Outcomes\<close>

text \<open>
  The places where the code indexes a vector with \<open>operator[]\<close>, which does not check
  its index. An index past the end is undefined behaviour; the embedding records which
  access it was.
\<close>

datatype access =
    YValues_front   \<comment> \<open>\<open>yValues[0]\<close>\<close>
  | YValues_row     \<comment> \<open>\<open>yValues[j]\<close>\<close>
  | YValues_item    \<comment> \<open>\<open>yValues[j][i]\<close>\<close>
  | XValues_row     \<comment> \<open>\<open>xValues[j]\<close>\<close>
  | XValues_item    \<comment> \<open>\<open>xValues[j][i]\<close>\<close>
  | Data_row        \<comment> \<open>\<open>data[i]\<close>, \<open>ydata[i]\<close>\<close>
  | Data_item       \<comment> \<open>\<open>data[i][j]\<close>, \<open>ydata[i][j]\<close>\<close>
  | XData_row       \<comment> \<open>\<open>xdata[i]\<close>\<close>
  | XData_item      \<comment> \<open>\<open>xdata[i][j]\<close>\<close>
  | Out_slot        \<comment> \<open>\<open>out[i]\<close>\<close>
  | Value_index     \<comment> \<open>the index of \<open>GetDataValue\<close>\<close>

datatype 'a outcome =
    Returns 'a              \<comment> \<open>normal return\<close>
  | Throws string           \<comment> \<open>\<open>throw std::runtime_error(msg)\<close>: can be caught\<close>
  | Exits string nat        \<comment> \<open>a line on \<open>std::cerr\<close>, then \<open>exit(status)\<close>\<close>
  | Undefined access        \<comment> \<open>an unchecked index past the end of a vector\<close>

fun and_then :: "'a outcome \<Rightarrow> ('a \<Rightarrow> 'b outcome) \<Rightarrow> 'b outcome" where
  "and_then (Returns a) f = f a"
| "and_then (Throws m) f = Throws m"
| "and_then (Exits m n) f = Exits m n"
| "and_then (Undefined w) f = Undefined w"

text \<open>Reading \<open>v[i]\<close> and writing \<open>v[i] = a\<close>.\<close>

definition at :: "access \<Rightarrow> 'a list \<Rightarrow> nat \<Rightarrow> 'a outcome" where
  "at w v i = (if i < length v then Returns (v ! i) else Undefined w)"

definition put :: "access \<Rightarrow> 'a list \<Rightarrow> nat \<Rightarrow> 'a \<Rightarrow> 'a list outcome" where
  "put w v i a = (if i < length v then Returns (v[i := a]) else Undefined w)"

text \<open>
  \<open>for (i = 0; i < n; ++i) body\<close>, for a body that changes neither \<open>i\<close> nor \<open>n\<close>:
  the iterations \<open>0, \<dots>, n - 1\<close> in this order, ended by the first one that does not
  return.
\<close>

primrec for_upto :: "nat \<Rightarrow> (nat \<Rightarrow> 's \<Rightarrow> 's outcome) \<Rightarrow> 's \<Rightarrow> 's outcome" where
  "for_upto 0 body s = Returns s"
| "for_upto (Suc n) body s = and_then (for_upto n body s) (body n)"

subsection \<open>The class\<close>

datatype PlottingType = POINTS | LINE | BARS

record ('f, 'c) PlotDataSet =
  m_yValues :: "'f list"
  m_xValues :: "'f list"
  m_color :: 'c
  m_label :: string
  m_pType :: PlottingType

text \<open>The data constructor (lines 58 to 69).\<close>

definition PlotDataSet_ctor ::
  "('a \<Rightarrow> 'f) \<Rightarrow> ('b \<Rightarrow> 'f) \<Rightarrow> 'a list \<Rightarrow> 'b list \<Rightarrow> 'c \<Rightarrow> string \<Rightarrow> PlottingType
     \<Rightarrow> ('f, 'c) PlotDataSet outcome" where
  "PlotDataSet_ctor cvx cvy xValues yValues color label ptype =
     (let xs = map cvx xValues;
          ys = map cvy yValues
      in if length xs \<noteq> length ys then Exits ''Incompatible data sizes'' 1
         else Returns \<lparr>m_yValues = ys, m_xValues = xs, m_color = color, m_label = label,
                       m_pType = ptype\<rparr>)"

text \<open>
  Modelled from the spec: the default constructor \<open>PlotDataSet()\<close> is declared in the
  header (``Create empty data'') and defined in a file that is not part of the sources.
  The specification has ``Construct empty (no points, default metadata)''. What the
  default metadata is, is not said; it is the three arguments.
\<close>

definition PlotDataSet_default :: "'c \<Rightarrow> string \<Rightarrow> PlottingType \<Rightarrow> ('f, 'c) PlotDataSet" where
  "PlotDataSet_default color label ptype =
     \<lparr>m_yValues = [], m_xValues = [], m_color = color, m_label = label, m_pType = ptype\<rparr>"

text \<open>
  Modelled from the spec: \<open>GetDataLength\<close> is declared in the header (``Get element
  count (\_xValues ad \_yValues always the same size), return \_xValues.size()'') and
  defined elsewhere. The specification has ``\<open>length()\<close>: current point count''.
\<close>

definition GetDataLength :: "('f, 'c) PlotDataSet \<Rightarrow> nat" where
  "GetDataLength p = length (m_xValues p)"

text \<open>
  Modelled from the spec: \<open>GetDataValue\<close> is declared in the header (``Get a specific
  value, return value pair at i'') and defined elsewhere. The specification has
  ``\<open>pointAt(i)\<close>: the (x,y) pair at index i; undefined/error if i is out of range''.
\<close>

definition GetDataValue :: "('f, 'c) PlotDataSet \<Rightarrow> nat \<Rightarrow> ('f \<times> 'f) outcome" where
  "GetDataValue p i =
     (if i < length (m_xValues p) \<and> i < length (m_yValues p)
      then Returns (m_xValues p ! i, m_yValues p ! i)
      else Undefined Value_index)"

subsection \<open>MultiPlotDatSet\<close>

text \<open>
  The template is instantiated at the types of its arguments, and \<open>is_iterable\<close>
  selects one block at compile time. The instances that take numbers or vectors of
  numbers are the four combinations of the two shapes.
\<close>

datatype 'a samples = Flat "'a list" | Nested "'a list list"

text \<open>Line 93, \<open>data[i][j] = yValues[j][i]\<close>: the right side first, then the left.\<close>

definition y_cell ::
  "('b \<Rightarrow> 'f) \<Rightarrow> 'b list list \<Rightarrow> nat \<Rightarrow> nat \<Rightarrow> 'f list list \<Rightarrow> 'f list list outcome" where
  "y_cell cvy yValues i j data =
     and_then (at YValues_row yValues j) (\<lambda>yj.
     and_then (at YValues_item yj i) (\<lambda>v.
     and_then (at Data_row data i) (\<lambda>row.
     and_then (put Data_item row j (cvy v)) (\<lambda>row'.
     put Data_row data i row'))))"

text \<open>Lines 91 to 94, the body of the loop over \<open>i\<close>.\<close>

definition y_series ::
  "('b \<Rightarrow> 'f::zero) \<Rightarrow> 'b list list \<Rightarrow> nat \<Rightarrow> nat \<Rightarrow> 'f list list \<Rightarrow> 'f list list outcome" where
  "y_series cvy yValues sz i data =
     and_then (put Data_row data i (replicate sz 0)) (for_upto sz (y_cell cvy yValues i))"

text \<open>Line 98, \<open>out[i] = PlotDataSet(xValues, data[i], color, \<dots>, type)\<close>.\<close>

definition y_emit ::
  "('a \<Rightarrow> 'f) \<Rightarrow> 'a list \<Rightarrow> 'f list list \<Rightarrow> 'c \<Rightarrow> PlottingType \<Rightarrow> string list \<Rightarrow> nat \<Rightarrow> nat
     \<Rightarrow> ('f, 'c) PlotDataSet list \<Rightarrow> ('f, 'c) PlotDataSet list outcome" where
  "y_emit cvx xValues data color ptype labels labels_sz i out =
     and_then (at Data_row data i) (\<lambda>d.
     and_then (PlotDataSet_ctor cvx id xValues d color
                 (if i < labels_sz then labels ! i else '''') ptype) (\<lambda>p.
     put Out_slot out i p))"

text \<open>Lines 119 and 120, the body of the loop over \<open>j\<close> in the third block.\<close>

definition xy_cell ::
  "('a \<Rightarrow> 'f) \<Rightarrow> ('b \<Rightarrow> 'f) \<Rightarrow> 'a list list \<Rightarrow> 'b list list \<Rightarrow> nat \<Rightarrow> nat
     \<Rightarrow> 'f list list \<times> 'f list list \<Rightarrow> ('f list list \<times> 'f list list) outcome" where
  "xy_cell cvx cvy xValues yValues i j st =
     (case st of (xdata, ydata) \<Rightarrow>
        and_then (at XValues_row xValues j) (\<lambda>xj.
        and_then (at XValues_item xj i) (\<lambda>xv.
        and_then (at XData_row xdata i) (\<lambda>xrow.
        and_then (put XData_item xrow j (cvx xv)) (\<lambda>xrow'.
        and_then (put XData_row xdata i xrow') (\<lambda>xdata'.
        and_then (at YValues_row yValues j) (\<lambda>yj.
        and_then (at YValues_item yj i) (\<lambda>yv.
        and_then (at Data_row ydata i) (\<lambda>yrow.
        and_then (put Data_item yrow j (cvy yv)) (\<lambda>yrow'.
        and_then (put Data_row ydata i yrow') (\<lambda>ydata'.
        Returns (xdata', ydata'))))))))))))"

text \<open>Lines 116 to 121, the body of the loop over \<open>i\<close> in the third block.\<close>

definition xy_series ::
  "('a \<Rightarrow> 'f::zero) \<Rightarrow> ('b \<Rightarrow> 'f) \<Rightarrow> 'a list list \<Rightarrow> 'b list list \<Rightarrow> nat \<Rightarrow> nat
     \<Rightarrow> 'f list list \<times> 'f list list \<Rightarrow> ('f list list \<times> 'f list list) outcome" where
  "xy_series cvx cvy xValues yValues sz i st =
     (case st of (xdata, ydata) \<Rightarrow>
        and_then (put XData_row xdata i (replicate sz 0)) (\<lambda>xdata'.
        and_then (put Data_row ydata i (replicate sz 0)) (\<lambda>ydata'.
        for_upto sz (xy_cell cvx cvy xValues yValues i) (xdata', ydata'))))"

text \<open>
  Line 125, \<open>out[i] = PlotDataSet(xdata[i], ydata[i], color, \<dots>, type)\<close>. The language
  does not fix which of the two arguments is evaluated first; here \<open>xdata[i]\<close> is. The
  two vectors are created with the same size, so that one read is past the end exactly
  when the other is.
\<close>

definition xy_emit ::
  "'f list list \<Rightarrow> 'f list list \<Rightarrow> 'c \<Rightarrow> PlottingType \<Rightarrow> string list \<Rightarrow> nat \<Rightarrow> nat
     \<Rightarrow> ('f, 'c) PlotDataSet list \<Rightarrow> ('f, 'c) PlotDataSet list outcome" where
  "xy_emit xdata ydata color ptype labels labels_sz i out =
     and_then (at XData_row xdata i) (\<lambda>xd.
     and_then (at Data_row ydata i) (\<lambda>yd.
     and_then (PlotDataSet_ctor id id xd yd color
                 (if i < labels_sz then labels ! i else '''') ptype) (\<lambda>p.
     put Out_slot out i p)))"

text \<open>
  The function (lines 71 to 130), one equation for each instance. The argument
  \<open>blank\<close> is the value of \<open>PlotDataSet()\<close>, with which \<open>std::vector<PlotDataSet> out(sz)\<close>
  fills the vector.
\<close>

fun MultiPlotDatSet ::
  "('a \<Rightarrow> 'f::zero) \<Rightarrow> ('b \<Rightarrow> 'f) \<Rightarrow> ('f, 'c) PlotDataSet \<Rightarrow> 'a samples \<Rightarrow> 'b samples \<Rightarrow> 'c
     \<Rightarrow> PlottingType \<Rightarrow> string list \<Rightarrow> ('f, 'c) PlotDataSet list outcome" where
  "MultiPlotDatSet cvx cvy blank (Flat xValues) (Flat yValues) color ptype labels =
     and_then (PlotDataSet_ctor cvx cvy xValues yValues color
                 (if labels = [] then '''' else labels ! 0) ptype) (\<lambda>p.
     Returns [p])"
| "MultiPlotDatSet cvx cvy blank (Flat xValues) (Nested yValues) color ptype labels =
     (let sz = length xValues in
      and_then (at YValues_front yValues 0) (\<lambda>y0.
      let internal_sz = length y0 in
      if sz = 0 then Throws ''Empty y value data''
      else
        let labels_sz = length labels;
            out = replicate sz blank;
            data = replicate internal_sz []
        in and_then (for_upto internal_sz (y_series cvy yValues sz) data) (\<lambda>data'.
           for_upto internal_sz (y_emit cvx xValues data' color ptype labels labels_sz) out)))"
| "MultiPlotDatSet cvx cvy blank (Nested xValues) (Nested yValues) color ptype labels =
     (let sz = length xValues in
      and_then (at YValues_front yValues 0) (\<lambda>y0.
      let internal_sz = length y0 in
      if length yValues \<noteq> sz
      then Throws (''Mismatching dataset sizes for mutliplot, set dimension of X'' @
                   ''must be one, or match set dimension of Y'')
      else
        let labels_sz = length labels;
            out = replicate sz blank;
            xdata = replicate internal_sz [];
            ydata = replicate internal_sz []
        in and_then (for_upto internal_sz (xy_series cvx cvy xValues yValues sz) (xdata, ydata))
             (\<lambda>st. case st of (xdata', ydata') \<Rightarrow>
           for_upto sz (xy_emit xdata' ydata' color ptype labels labels_sz) out)))"
| "MultiPlotDatSet cvx cvy blank (Nested xValues) (Flat yValues) color ptype labels =
     Returns []"

section \<open>The constructor\<close>

text \<open>
  Claim C7. For sequences \<open>xValues\<close> and \<open>yValues\<close> of the same length the data
  constructor returns a container \<open>p\<close>; its length is the length of \<open>xValues\<close> and of
  \<open>yValues\<close>, and the point at every index \<open>i\<close> below that length is the pair of the
  stored values of \<open>xValues[i]\<close> and \<open>yValues[i]\<close>. The two getters are the ones
  modelled from the specification.
\<close>

theorem ctor_equal_sizes_points:
  "length xValues = length yValues \<Longrightarrow>
   \<exists>p. PlotDataSet_ctor cvx cvy xValues yValues color label ptype = Returns p
     \<and> m_xValues p = map cvx xValues
     \<and> m_yValues p = map cvy yValues
     \<and> GetDataLength p = length xValues
     \<and> GetDataLength p = length yValues
     \<and> (\<forall>i<length xValues. GetDataValue p i = Returns (cvx (xValues ! i), cvy (yValues ! i)))"
  by (simp add: PlotDataSet_ctor_def GetDataLength_def GetDataValue_def)

text \<open>
  The constructor on \<open>[1, 2]\<close> and \<open>[5, 6]\<close>: two points, \<open>(1, 5)\<close> and \<open>(2, 6)\<close>.
\<close>

theorem ctor_equal_sizes_points_witness:
  "length [1, 2 :: int] = length [5, 6 :: int]
   \<and> (\<exists>p. PlotDataSet_ctor id id [1, 2 :: int] [5, 6 :: int] (7 :: nat) ''a'' LINE = Returns p
         \<and> GetDataLength p = 2
         \<and> GetDataValue p 0 = Returns (1, 5)
         \<and> GetDataValue p 1 = Returns (2, 6))"
proof -
  have h: "length [1, 2 :: int] = length [5, 6 :: int]"
    by simp
  obtain p where p: "PlotDataSet_ctor id id [1, 2 :: int] [5, 6 :: int] (7 :: nat) ''a'' LINE = Returns p"
    and len: "GetDataLength p = length [1, 2 :: int]"
    and pts: "\<forall>i<length [1, 2 :: int]. GetDataValue p i = Returns (id ([1, 2 :: int] ! i), id ([5, 6 :: int] ! i))"
    using ctor_equal_sizes_points [OF h, of id id "7 :: nat" "''a''" LINE] by blast
  have "GetDataValue p 0 = Returns (1, 5)" and "GetDataValue p 1 = Returns (2, 6)"
    using pts by (simp_all add: All_less_Suc numeral_2_eq_2)
  then show ?thesis
    using p len by simp
qed

text \<open>
  Claim C5. For sequences of different lengths the constructor writes its line on the
  error stream and ends the process with status 1. Whatever the arguments, a container
  that the constructor returns has as many x values as y values.
\<close>

theorem ctor_size_mismatch_exits:
  "(length xValues \<noteq> length yValues \<longrightarrow>
      PlotDataSet_ctor cvx cvy xValues yValues color label ptype =
        Exits ''Incompatible data sizes'' 1)
   \<and> (\<forall>p. PlotDataSet_ctor cvx cvy xValues yValues color label ptype = Returns p \<longrightarrow>
          length (m_xValues p) = length (m_yValues p))"
  by (auto simp add: PlotDataSet_ctor_def)

text \<open>
  The constructor on \<open>[1, 2]\<close> and \<open>[3]\<close> ends the process; on \<open>[1, 2]\<close> and \<open>[3, 4]\<close>
  it returns a container with two values on each axis.
\<close>

theorem ctor_size_mismatch_exits_witness:
  "PlotDataSet_ctor id id [1, 2 :: int] [3 :: int] (7 :: nat) ''a'' LINE =
     Exits ''Incompatible data sizes'' 1
   \<and> (\<exists>p. PlotDataSet_ctor id id [1, 2 :: int] [3, 4 :: int] (7 :: nat) ''a'' LINE = Returns p
          \<and> length (m_xValues p) = length (m_yValues p))"
proof -
  have "PlotDataSet_ctor id id [1, 2 :: int] [3, 4 :: int] (7 :: nat) ''a'' LINE =
          Returns \<lparr>m_yValues = [3, 4], m_xValues = [1, 2], m_color = 7, m_label = ''a'',
                   m_pType = LINE\<rparr>"
    by (simp add: PlotDataSet_ctor_def)
  then show ?thesis
    using ctor_size_mismatch_exits [of "[1, 2 :: int]" "[3 :: int]" id id "7 :: nat" "''a''" LINE]
      ctor_size_mismatch_exits [of "[1, 2 :: int]" "[3, 4 :: int]" id id "7 :: nat" "''a''" LINE]
    by simp
qed

section \<open>Vector accesses and counted loops\<close>

lemma at_in_range: "i < length v \<Longrightarrow> at w v i = Returns (v ! i)"
  by (simp add: at_def)

lemma at_past_end: "length v \<le> i \<Longrightarrow> at w v i = Undefined w"
  by (simp add: at_def)

lemma put_in_range: "i < length v \<Longrightarrow> put w v i a = Returns (v[i := a])"
  by (simp add: put_def)


lemma for_upto_stays_undefined:
  "for_upto n body s = Undefined w \<Longrightarrow> for_upto (n + k) body s = Undefined w"
  by (induction k) simp_all

lemma update_next_slot:
  assumes "m < length v"
  shows "(map g [0..<m] @ drop m v)[m := a] = map g [0..<m] @ a # drop (Suc m) v"
proof -
  have "drop m v = v ! m # drop (Suc m) v"
    using assms by (simp add: Cons_nth_drop_Suc)
  then show ?thesis
    by (simp add: list_update_append)
qed

lemma for_upto_fill:
  assumes "m \<le> length v"
    and "\<And>i u. i < m \<Longrightarrow> length u = length v \<Longrightarrow> body i u = Returns (u[i := g i])"
  shows "for_upto m body v = Returns (map g [0..<m] @ drop m v)"
  using assms
proof (induction m)
  case 0
  show ?case by simp
next
  case (Suc m)
  let ?u = "map g [0..<m] @ drop m v"
  have run: "for_upto m body v = Returns ?u"
    using Suc by simp
  have len: "length ?u = length v"
    using Suc.prems(1) by simp
  have "body m ?u = Returns (?u[m := g m])"
    using Suc.prems(2) [of m ?u] len by simp
  moreover have "?u[m := g m] = map g [0..<Suc m] @ drop (Suc m) v"
    using Suc.prems(1) by (simp add: update_next_slot)
  ultimately show ?case
    using run by simp
qed

section \<open>MultiPlotDatSet on two flat arguments\<close>

text \<open>
  Claim C6. When neither argument is nested and the two have the same length, the
  function returns one container: the stored \<open>xValues\<close> with the stored \<open>yValues\<close>,
  the colour and plotting type of the call, and the label \<open>labels[0]\<close>, or the empty
  string when \<open>labels\<close> is empty.
\<close>

theorem scalar_scalar_single_container:
  "length xValues = length yValues \<Longrightarrow>
   MultiPlotDatSet cvx cvy blank (Flat xValues) (Flat yValues) color ptype labels =
     Returns [\<lparr>m_yValues = map cvy yValues, m_xValues = map cvx xValues, m_color = color,
               m_label = (if labels = [] then '''' else labels ! 0), m_pType = ptype\<rparr>]"
  by (simp add: PlotDataSet_ctor_def)

text \<open>
  Two calls on \<open>[1, 2]\<close> and \<open>[5, 6]\<close>: with the labels \<open>a\<close> and \<open>b\<close> the container is
  labelled \<open>a\<close>, with no labels its label is empty.
\<close>

theorem scalar_scalar_single_container_witness:
  "length [1, 2 :: int] = length [5, 6 :: int]
   \<and> MultiPlotDatSet id id (PlotDataSet_default (0 :: nat) '''' POINTS)
         (Flat [1, 2 :: int]) (Flat [5, 6 :: int]) 7 BARS [''a'', ''b''] =
       Returns [\<lparr>m_yValues = [5, 6], m_xValues = [1, 2], m_color = 7, m_label = ''a'',
                 m_pType = BARS\<rparr>]
   \<and> MultiPlotDatSet id id (PlotDataSet_default (0 :: nat) '''' POINTS)
         (Flat [1, 2 :: int]) (Flat [5, 6 :: int]) 7 BARS [] =
       Returns [\<lparr>m_yValues = [5, 6], m_xValues = [1, 2], m_color = 7, m_label = '''',
                 m_pType = BARS\<rparr>]"
proof -
  have h: "length [1, 2 :: int] = length [5, 6 :: int]"
    by simp
  show ?thesis
    using h scalar_scalar_single_container [OF h, of id id
        "PlotDataSet_default (0 :: nat) '''' POINTS" 7 BARS "[''a'', ''b'']"]
      scalar_scalar_single_container [OF h, of id id
        "PlotDataSet_default (0 :: nat) '''' POINTS" 7 BARS "[]"]
    by simp
qed

section \<open>MultiPlotDatSet on nested x and flat y\<close>

text \<open>
  Claim C8. When \<open>xValues\<close> is nested and \<open>yValues\<close> is flat, none of the three blocks
  is compiled in and the function returns the empty vector, for every argument.
\<close>

theorem nested_x_flat_y_empty_result:
  "MultiPlotDatSet cvx cvy blank (Nested xValues) (Flat yValues) color ptype labels = Returns []"
  by simp

section \<open>MultiPlotDatSet on an empty nested y\<close>

text \<open>
  Claim C9. Both blocks for a nested \<open>yValues\<close> read \<open>yValues[0].size()\<close> before they
  test anything. When \<open>yValues\<close> is empty the call is an access past the end of
  \<open>yValues\<close>, whatever \<open>xValues\<close> is: also when \<open>xValues\<close> is empty, and when its
  outer length differs from that of \<open>yValues\<close>, where the code has a \<open>throw\<close> further
  down.
\<close>

theorem front_read_before_checks:
  "MultiPlotDatSet cvx cvy blank (Flat xValues) (Nested []) color ptype labels =
     Undefined YValues_front
   \<and> MultiPlotDatSet cvx cvy blank (Nested xValues') (Nested []) color ptype labels =
     Undefined YValues_front"
  by (simp add: at_def)

text \<open>
  Claim C3 (flat \<open>xValues\<close>, nested \<open>yValues\<close>, \<open>xValues\<close> empty). With both arguments
  empty the call does not throw: it reads \<open>yValues[0]\<close> of an empty vector. The
  \<open>runtime_error\<close> with the text \<open>Empty y value data\<close> is thrown when \<open>xValues\<close> is
  empty and \<open>yValues\<close> has a first element.
\<close>

theorem empty_x_empty_y_reads_front:
  "MultiPlotDatSet cvx cvy blank (Flat []) (Nested []) color ptype labels =
     Undefined YValues_front
   \<and> MultiPlotDatSet cvx cvy blank (Flat []) (Nested (y # ys)) color ptype labels =
     Throws ''Empty y value data''"
  by (simp add: at_def)

text \<open>
  The test of line 105 on a \<open>yValues\<close> that has a first element: outer lengths that
  differ give the \<open>runtime_error\<close>, whose text is the two string literals of lines 106
  and 107 put together with no space between them.
\<close>

lemma MultiPlotDatSet_outer_mismatch:
  "length xValues \<noteq> Suc (length ys) \<Longrightarrow>
   MultiPlotDatSet cvx cvy blank (Nested xValues) (Nested (y # ys)) color ptype labels =
     Throws ''Mismatching dataset sizes for mutliplot, set dimension of Xmust be one, or match set dimension of Y''"
  by (auto simp add: at_def)

text \<open>
  Claim C4 (both arguments nested, outer lengths different). With one sample in
  \<open>xValues\<close> and none in \<open>yValues\<close> the call does not throw: it reads \<open>yValues[0]\<close> of
  an empty vector. With one sample in \<open>xValues\<close> and two in \<open>yValues\<close> it throws the
  \<open>runtime_error\<close> about the dimension of X.
\<close>

theorem mismatch_with_empty_y_reads_front:
  "MultiPlotDatSet cvx cvy blank (Nested [[1 :: int]]) (Nested []) color ptype labels =
     Undefined YValues_front
   \<and> MultiPlotDatSet cvx cvy blank (Nested [[1 :: int]]) (Nested [[1], [2 :: int]])
       color ptype labels =
     Throws ''Mismatching dataset sizes for mutliplot, set dimension of Xmust be one, or match set dimension of Y''"
  by (simp add: at_def)

section \<open>MultiPlotDatSet on flat x and nested y\<close>












text \<open>
  Claim C1 (the example of the specification). For \<open>xValues = [1, 2, 3]\<close> and
  \<open>yValues = [[10, 20], [11, 21], [12, 22]]\<close> the function returns three containers, not
  two: the two series with the points \<open>(1,10), (2,11), (3,12)\<close> and
  \<open>(1,20), (2,21), (3,22)\<close>, labelled by position, and after them one
  default-constructed container.
\<close>

theorem scalar_nested_example_three_containers:
  "MultiPlotDatSet cvx cvy blank (Flat [1, 2, 3 :: int])
       (Nested [[10, 20], [11, 21], [12, 22 :: int]]) color ptype labels =
     Returns
       [\<lparr>m_yValues = [cvy 10, cvy 11, cvy 12], m_xValues = [cvx 1, cvx 2, cvx 3],
         m_color = color, m_label = (if 0 < length labels then labels ! 0 else ''''),
         m_pType = ptype\<rparr>,
        \<lparr>m_yValues = [cvy 20, cvy 21, cvy 22], m_xValues = [cvx 1, cvx 2, cvx 3],
         m_color = color, m_label = (if 1 < length labels then labels ! 1 else ''''),
         m_pType = ptype\<rparr>,
        blank]"
  by (simp add: eval_nat_numeral at_def put_def y_series_def y_cell_def y_emit_def
        PlotDataSet_ctor_def)

section \<open>MultiPlotDatSet on two nested arguments\<close>

text \<open>
  The two transpositions of lines 113 to 122, then the loop of lines 124 to 126. Write
  \<open>N\<close> for the common outer length and \<open>M\<close> for the length of \<open>yValues[0]\<close>. When every
  row of \<open>xValues\<close> and of \<open>yValues\<close> has at least \<open>M\<close> items, \<open>xdata\<close> and \<open>ydata\<close> become
  the \<open>M\<close> transposed series. The last loop counts to \<open>N\<close>: for \<open>N \<le> M\<close> the function
  returns the first \<open>N\<close> series, and for \<open>M < N\<close> it reads \<open>xdata[M]\<close> past the end.
\<close>

lemma xy_cell_loop:
  assumes "i < length xdata" and "i < length ydata"
    and "length (xdata ! i) = sz" and "length (ydata ! i) = sz" and "k \<le> sz"
    and "k \<le> length xValues" and "k \<le> length yValues"
    and "\<forall>j<k. i < length (xValues ! j) \<and> i < length (yValues ! j)"
  shows "for_upto k (xy_cell cvx cvy xValues yValues i) (xdata, ydata) =
           Returns (xdata[i := map (\<lambda>n. cvx (xValues ! n ! i)) [0..<k] @ drop k (xdata ! i)],
                    ydata[i := map (\<lambda>n. cvy (yValues ! n ! i)) [0..<k] @ drop k (ydata ! i)])"
  using assms
proof (induction k)
  case 0
  show ?case by simp
next
  case (Suc k)
  let ?xrow = "map (\<lambda>n. cvx (xValues ! n ! i)) [0..<k] @ drop k (xdata ! i)"
  let ?yrow = "map (\<lambda>n. cvy (yValues ! n ! i)) [0..<k] @ drop k (ydata ! i)"
  have run: "for_upto k (xy_cell cvx cvy xValues yValues i) (xdata, ydata) =
               Returns (xdata[i := ?xrow], ydata[i := ?yrow])"
    using Suc by simp
  have k: "k < length xValues" "i < length (xValues ! k)" "k < length ?xrow"
    "k < length yValues" "i < length (yValues ! k)" "k < length ?yrow"
    using Suc.prems by simp_all
  have "xy_cell cvx cvy xValues yValues i k (xdata[i := ?xrow], ydata[i := ?yrow]) =
          Returns (xdata[i := ?xrow[k := cvx (xValues ! k ! i)]],
                   ydata[i := ?yrow[k := cvy (yValues ! k ! i)]])"
    using k Suc.prems(1,2) by (simp add: xy_cell_def at_in_range put_in_range)
  moreover have "?xrow[k := cvx (xValues ! k ! i)] =
      map (\<lambda>n. cvx (xValues ! n ! i)) [0..<Suc k] @ drop (Suc k) (xdata ! i)"
    using Suc.prems(3,5) by (simp add: update_next_slot)
  moreover have "?yrow[k := cvy (yValues ! k ! i)] =
      map (\<lambda>n. cvy (yValues ! n ! i)) [0..<Suc k] @ drop (Suc k) (ydata ! i)"
    using Suc.prems(4,5) by (simp add: update_next_slot)
  ultimately show ?case
    using run by simp
qed

lemma xy_series_step:
  assumes "i < length xdata" and "i < length ydata"
    and "sz \<le> length xValues" and "sz \<le> length yValues"
    and "\<forall>j<sz. i < length (xValues ! j) \<and> i < length (yValues ! j)"
  shows "xy_series cvx cvy xValues yValues sz i (xdata, ydata) =
           Returns (xdata[i := map (\<lambda>n. cvx (xValues ! n ! i)) [0..<sz]],
                    ydata[i := map (\<lambda>n. cvy (yValues ! n ! i)) [0..<sz]])"
proof -
  let ?xd = "xdata[i := replicate sz 0]"
  let ?yd = "ydata[i := replicate sz 0]"
  have "for_upto sz (xy_cell cvx cvy xValues yValues i) (?xd, ?yd) =
          Returns (?xd[i := map (\<lambda>n. cvx (xValues ! n ! i)) [0..<sz] @ drop sz (?xd ! i)],
                   ?yd[i := map (\<lambda>n. cvy (yValues ! n ! i)) [0..<sz] @ drop sz (?yd ! i)])"
    using assms xy_cell_loop [of i ?xd ?yd sz sz xValues yValues cvx cvy] by simp
  then show ?thesis
    using assms(1,2) by (simp add: xy_series_def put_in_range)
qed

lemma xy_series_loop:
  fixes cvx :: "'a \<Rightarrow> 'f::zero" and cvy :: "'b \<Rightarrow> 'f"
  assumes "sz \<le> length xValues" and "sz \<le> length yValues"
    and "\<forall>j<sz. M \<le> length (xValues ! j) \<and> M \<le> length (yValues ! j)"
    and "m \<le> M"
  shows "for_upto m (xy_series cvx cvy xValues yValues sz) (replicate M [], replicate M []) =
           Returns (map (\<lambda>i. map (\<lambda>n. cvx (xValues ! n ! i)) [0..<sz]) [0..<m]
                      @ drop m (replicate M []),
                    map (\<lambda>i. map (\<lambda>n. cvy (yValues ! n ! i)) [0..<sz]) [0..<m]
                      @ drop m (replicate M []))"
  using assms(4)
proof (induction m)
  case 0
  show ?case by simp
next
  case (Suc m)
  let ?tx = "\<lambda>i. map (\<lambda>n. cvx (xValues ! n ! i)) [0..<sz]"
  let ?ty = "\<lambda>i. map (\<lambda>n. cvy (yValues ! n ! i)) [0..<sz]"
  let ?xd = "map ?tx [0..<m] @ drop m (replicate M ([] :: 'f list))"
  let ?yd = "map ?ty [0..<m] @ drop m (replicate M ([] :: 'f list))"
  have run: "for_upto m (xy_series cvx cvy xValues yValues sz) (replicate M [], replicate M []) =
               Returns (?xd, ?yd)"
    using Suc by simp
  have m: "m < length ?xd" "m < length ?yd"
    using Suc.prems by simp_all
  moreover have "\<forall>j<sz. m < length (xValues ! j) \<and> m < length (yValues ! j)"
    using assms(3) Suc.prems by fastforce
  ultimately have "xy_series cvx cvy xValues yValues sz m (?xd, ?yd) =
      Returns (?xd[m := ?tx m], ?yd[m := ?ty m])"
    using assms(1,2) by (intro xy_series_step)
  moreover have "?xd[m := ?tx m] = map ?tx [0..<Suc m] @ drop (Suc m) (replicate M [])"
    and "?yd[m := ?ty m] = map ?ty [0..<Suc m] @ drop (Suc m) (replicate M [])"
    using Suc.prems update_next_slot [of m "replicate M []"] by simp_all
  ultimately show ?case
    using run by simp
qed

lemma xy_emit_step:
  assumes "i < length xdata" and "i < length ydata"
    and "length (xdata ! i) = length (ydata ! i)" and "i < length out"
  shows "xy_emit xdata ydata color ptype labels labels_sz i out =
           Returns (out[i := \<lparr>m_yValues = ydata ! i, m_xValues = xdata ! i, m_color = color,
                               m_label = (if i < labels_sz then labels ! i else ''''),
                               m_pType = ptype\<rparr>])"
  using assms by (simp add: xy_emit_def at_in_range put_in_range PlotDataSet_ctor_def)

lemma xy_emit_past_end:
  assumes "length xdata \<le> i"
  shows "xy_emit xdata ydata color ptype labels labels_sz i out = Undefined XData_row"
  using assms by (simp add: xy_emit_def at_past_end)

lemma xy_emit_loop:
  assumes "m \<le> length xdata" and "m \<le> length ydata" and "m \<le> length out"
    and "\<forall>i<m. length (xdata ! i) = length (ydata ! i)"
  shows "for_upto m (xy_emit xdata ydata color ptype labels labels_sz) out =
           Returns (map (\<lambda>i. \<lparr>m_yValues = ydata ! i, m_xValues = xdata ! i, m_color = color,
                                  m_label = (if i < labels_sz then labels ! i else ''''),
                                  m_pType = ptype\<rparr>) [0..<m] @ drop m out)"
  using assms by (intro for_upto_fill) (simp_all add: xy_emit_step)

lemma xy_emit_loop_overrun:
  assumes "length xdata = length ydata" and "length xdata < sz" and "sz \<le> length out"
    and "\<forall>i<length xdata. length (xdata ! i) = length (ydata ! i)"
  shows "for_upto sz (xy_emit xdata ydata color ptype labels labels_sz) out =
           Undefined XData_row"
proof -
  let ?m = "length xdata"
  let ?body = "xy_emit xdata ydata color ptype labels labels_sz"
  obtain u where "for_upto ?m ?body out = Returns u"
    using assms xy_emit_loop [of ?m xdata ydata out color ptype labels labels_sz] by simp
  then have "for_upto (Suc ?m) ?body out = Undefined XData_row"
    by (simp add: xy_emit_past_end)
  then have "for_upto (Suc ?m + (sz - Suc ?m)) ?body out = Undefined XData_row"
    by (rule for_upto_stays_undefined)
  then show ?thesis
    using assms(2) by simp
qed

lemma MultiPlotDatSet_nested_nested:
  fixes cvx :: "'a \<Rightarrow> 'f::zero" and cvy :: "'b \<Rightarrow> 'f"
  assumes "yValues \<noteq> []" and "length xValues = length yValues"
    and "\<forall>j<length xValues. length (yValues ! 0) \<le> length (xValues ! j)
                             \<and> length (yValues ! 0) \<le> length (yValues ! j)"
  shows "MultiPlotDatSet cvx cvy blank (Nested xValues) (Nested yValues) color ptype labels =
           (if length xValues \<le> length (yValues ! 0)
            then Returns
              (map (\<lambda>s. \<lparr>m_yValues = map (\<lambda>n. cvy (yValues ! n ! s)) [0..<length xValues],
                          m_xValues = map (\<lambda>n. cvx (xValues ! n ! s)) [0..<length xValues],
                          m_color = color,
                          m_label = (if s < length labels then labels ! s else ''''),
                          m_pType = ptype\<rparr>) [0..<length xValues])
            else Undefined XData_row)"
proof -
  let ?N = "length xValues"
  let ?M = "length (yValues ! 0)"
  let ?xd = "map (\<lambda>i. map (\<lambda>n. cvx (xValues ! n ! i)) [0..<?N]) [0..<?M]"
  let ?yd = "map (\<lambda>i. map (\<lambda>n. cvy (yValues ! n ! i)) [0..<?N]) [0..<?M]"
  let ?out = "replicate ?N blank"
  let ?emit = "xy_emit ?xd ?yd color ptype labels (length labels)"
  have front: "at YValues_front yValues 0 = Returns (yValues ! 0)"
    using assms(1) by (simp add: at_in_range)
  have "for_upto ?M (xy_series cvx cvy xValues yValues ?N) (replicate ?M [], replicate ?M []) =
          Returns (?xd @ drop ?M (replicate ?M []), ?yd @ drop ?M (replicate ?M []))"
    using assms(2,3) by (intro xy_series_loop) simp_all
  then have call: "MultiPlotDatSet cvx cvy blank (Nested xValues) (Nested yValues) color ptype labels
      = for_upto ?N ?emit ?out"
    using front assms(2) by (simp add: Let_def)
  show ?thesis
  proof (cases "?N \<le> ?M")
    case True
    then have "for_upto ?N ?emit ?out =
        Returns (map (\<lambda>i. \<lparr>m_yValues = ?yd ! i, m_xValues = ?xd ! i, m_color = color,
                           m_label = (if i < length labels then labels ! i else ''''),
                           m_pType = ptype\<rparr>) [0..<?N] @ drop ?N ?out)"
      by (intro xy_emit_loop) simp_all
    then show ?thesis
      using True call by (simp cong: map_cong)
  next
    case False
    then have "for_upto ?N ?emit ?out = Undefined XData_row"
      by (intro xy_emit_loop_overrun) simp_all
    then show ?thesis
      using False call by simp
  qed
qed

text \<open>
  Claim C2 (the example of the specification). The loop of lines 124 to 126 runs over
  the \<open>N\<close> samples and reads \<open>xdata[i]\<close>, a vector of \<open>M\<close> series. For
  \<open>xValues = [[1, 1], [2, 2], [3, 3]]\<close> and \<open>yValues = [[10, 20], [11, 21], [12, 22]]\<close> the
  third iteration reads \<open>xdata[2]\<close> past the end, and nothing is returned. For two
  samples of three series the function returns two containers, the first two series.
\<close>

theorem nested_nested_example_reads_past_xdata:
  "MultiPlotDatSet cvx cvy blank (Nested [[1, 1], [2, 2], [3, 3 :: int]])
       (Nested [[10, 20], [11, 21], [12, 22 :: int]]) color ptype labels =
     Undefined XData_row
   \<and> MultiPlotDatSet cvx cvy blank (Nested [[1, 1, 1], [2, 2, 2 :: int]])
       (Nested [[10, 20, 30], [11, 21, 31 :: int]]) color ptype labels =
     Returns
       [\<lparr>m_yValues = [cvy 10, cvy 11], m_xValues = [cvx 1, cvx 2],
         m_color = color, m_label = (if 0 < length labels then labels ! 0 else ''''),
         m_pType = ptype\<rparr>,
        \<lparr>m_yValues = [cvy 20, cvy 21], m_xValues = [cvx 1, cvx 2],
         m_color = color, m_label = (if 1 < length labels then labels ! 1 else ''''),
         m_pType = ptype\<rparr>]"
  by (simp add: eval_nat_numeral at_def put_def xy_series_def xy_cell_def xy_emit_def
        PlotDataSet_ctor_def)

end
